theory Spec2Isabelle
  imports Complex_Main
begin

section \<open>Errors and arrays\<close>

text \<open>
  The three notebooks of the material are Python scripts over NumPy arrays. An exception
  raised by an operation is a value of the type below; a computation that may raise
  returns \<open>error + 'a\<close>, with \<open>Inl\<close> for the exception.
\<close>

datatype error = IndexError | ValueError | ExternalError string

definition and_then :: "error + 'a \<Rightarrow> ('a \<Rightarrow> error + 'b) \<Rightarrow> error + 'b" where
  "and_then m f = (case m of Inl e \<Rightarrow> Inl e | Inr x \<Rightarrow> f x)"

text \<open>
  An array element of floating type is either the not-a-number value or a number. The
  carrier \<open>'a\<close> of the numbers is left open (finite values and infinities alike); an
  integer array has no \<open>NaN\<close> element. The comparison \<open>!=\<close> of IEEE 754 holds whenever
  one operand is not a number, and otherwise compares the numbers.
\<close>

datatype 'a pyfloat = NaN | Num 'a

fun float_ne :: "'a pyfloat \<Rightarrow> 'a pyfloat \<Rightarrow> bool" where
  "float_ne (Num a) (Num b) = (a \<noteq> b)"
| "float_ne _ _ = True"

text \<open>
  An n-dimensional array is its shape, its elements in row-major order, and the flag
  that says whether it may be written to (\<open>flags.writeable\<close>).
\<close>

record 'a ndarray =
  shape :: "nat list"
  data :: "'a list"
  writeable :: bool

text \<open>
  \<open>a != b\<close> for two arrays of one shape: the elementwise comparison, in a new array.
\<close>

definition array_ne :: "'a pyfloat ndarray \<Rightarrow> 'a pyfloat ndarray \<Rightarrow> bool ndarray" where
  "array_ne a b =
     \<lparr>shape = shape a, data = map2 float_ne (data a) (data b), writeable = True\<rparr>"

text \<open>
  \<open>a[m] = v\<close> for a boolean array \<open>m\<close> and a scalar \<open>v\<close>. NumPy raises ValueError
  (assignment destination is read-only) when \<open>a\<close> is not writeable, whatever the mask
  holds. The shape of the mask has to be that of the leading axes of \<open>a\<close>, else
  IndexError; an element of the mask then stands for the block of \<open>a\<close> below it (a
  single element when the shapes are equal), and \<open>v\<close> is stored in the blocks where the
  mask is true.
\<close>

definition setitem_mask :: "'a ndarray \<Rightarrow> bool ndarray \<Rightarrow> 'a \<Rightarrow> error + 'a ndarray" where
  "setitem_mask a m v =
     (let block = prod_list (drop (length (shape m)) (shape a)) in
      if \<not> writeable a then Inl ValueError
      else if take (length (shape m)) (shape a) \<noteq> shape m
              \<or> length (data a) \<noteq> length (data m) * block then Inl IndexError
      else Inr (a\<lparr>data := map (\<lambda>(j, x). if data m ! (j div block) then v else x)
                                (enumerate 0 (data a))\<rparr>))"

section \<open>showme (TransferFunctionHelper tutorial)\<close>

text \<open>
  \<^verbatim>\<open>
  def showme(im):
      # screen out NaNs
      im[im != im] = 0.0
      # Create an RGBA bitmap to display
      imb = yt.write_bitmap(im, None)
      return Image(imb)
  \<close>
  The first statement updates the caller's array in place; the model returns the
  updated array next to the value of the function. \<open>yt.write_bitmap(_, None)\<close> and
  \<open>Image\<close> of IPython (\<open>ipy_Image\<close> below) are not part of the material: they are
  parameters, and each may fail.
\<close>

definition screen_nans :: "'a::zero pyfloat ndarray \<Rightarrow> error + 'a pyfloat ndarray" where
  "screen_nans im = setitem_mask im (array_ne im im) (Num 0)"

text \<open>
  The array the caller holds after the first statement: the updated array, or the array
  as it was when the statement raised.
\<close>

definition after_screening :: "'a::zero pyfloat ndarray \<Rightarrow> 'a pyfloat ndarray" where
  "after_screening im = (case screen_nans im of Inl e \<Rightarrow> im | Inr im1 \<Rightarrow> im1)"

definition showme ::
  "('a::zero pyfloat ndarray \<Rightarrow> error + 'b) \<Rightarrow> ('b \<Rightarrow> error + 'c) \<Rightarrow>
   'a pyfloat ndarray \<Rightarrow> error + ('a pyfloat ndarray \<times> 'c)" where
  "showme write_bitmap ipy_Image im =
     and_then (screen_nans im) (\<lambda>im1.
     and_then (write_bitmap im1) (\<lambda>imb.
     and_then (ipy_Image imb) (\<lambda>shown. Inr (im1, shown))))"

section \<open>my_function (Loading Data via Functions)\<close>

text \<open>
  The arithmetic of the array elements. The functions below compute with whatever
  arithmetic they are given, one operation of the arithmetic for each operation the
  source applies to an element, in the order of the source: for NumPy this is IEEE 754
  double precision, with its rounding, overflow and underflow. \<open>f_lit\<close> is the number of
  the arithmetic that a literal, an integer or \<open>np.pi\<close> stands for; \<open>f_square\<close> is
  \<open>x ** 2\<close>; \<open>f_is_zero\<close> is the test \<open>x == 0\<close>.
\<close>

record 'f arith =
  f_lit :: "real \<Rightarrow> 'f"
  f_add :: "'f \<Rightarrow> 'f \<Rightarrow> 'f"
  f_sub :: "'f \<Rightarrow> 'f \<Rightarrow> 'f"
  f_mul :: "'f \<Rightarrow> 'f \<Rightarrow> 'f"
  f_div :: "'f \<Rightarrow> 'f \<Rightarrow> 'f"
  f_square :: "'f \<Rightarrow> 'f"
  f_sqrt :: "'f \<Rightarrow> 'f"
  f_exp :: "'f \<Rightarrow> 'f"
  f_sin :: "'f \<Rightarrow> 'f"
  f_is_zero :: "'f \<Rightarrow> bool"

text \<open>Exact arithmetic: the real numbers, without rounding.\<close>

definition exact :: "real arith" where
  "exact =
     \<lparr>f_lit = (\<lambda>r. r), f_add = (+), f_sub = (-), f_mul = (*), f_div = (/),
      f_square = (\<lambda>x. x ^ 2), f_sqrt = sqrt, f_exp = exp, f_sin = sin,
      f_is_zero = (\<lambda>x. x = 0)\<rparr>"

text \<open>
  The grid object handed to a field function. \<open>my_function\<close> reads four of its
  attributes, each indexed by axis; any further attribute is in the record extension.
\<close>

record 'f grid =
  LeftEdge :: "'f list"
  RightEdge :: "'f list"
  dds :: "'f list"
  ActiveDimensions :: "int list"

text \<open>\<open>a[i]\<close> for a literal index \<open>i \<ge> 0\<close>: IndexError beyond the end.\<close>

definition getitem :: "'a list \<Rightarrow> nat \<Rightarrow> error + 'a" where
  "getitem xs i = (if i < length xs then Inr (xs ! i) else Inl IndexError)"

text \<open>
  \<open>np.linspace(start, stop, num)\<close>, as NumPy computes it: ValueError for a negative
  \<open>num\<close>; otherwise the numbers \<open>0, 1, ..., num - 1\<close> are scaled by the step
  \<open>(stop - start) / (num - 1)\<close> (divided by \<open>num - 1\<close> and scaled by \<open>stop - start\<close> when the
  step is zero, and scaled by \<open>stop - start\<close> when there is a single sample), \<open>start\<close> is
  added, and the last of two or more samples is set to \<open>stop\<close>. (NumPy first multiplies
  \<open>start\<close> and \<open>stop\<close> by 1.0, which changes no number and is left out.)
\<close>

definition linspace :: "'f arith \<Rightarrow> 'f \<Rightarrow> 'f \<Rightarrow> int \<Rightarrow> error + 'f list" where
  "linspace ar start stop num =
     (if num < 0 then Inl ValueError
      else
        let y = map (\<lambda>k. f_lit ar (real k)) [0..<nat num];
            delta = f_sub ar stop start;
            scaled =
              (if 0 < num - 1 then
                 (let step = f_div ar delta (f_lit ar (real_of_int (num - 1))) in
                  if f_is_zero ar step
                  then map (\<lambda>v. f_mul ar (f_div ar v (f_lit ar (real_of_int (num - 1)))) delta) y
                  else map (\<lambda>v. f_mul ar v step) y)
               else map (\<lambda>v. f_mul ar v delta) y);
            shifted = map (\<lambda>v. f_add ar v start) scaled
        in Inr (if 1 < num then shifted[nat num - 1 := stop] else shifted))"

text \<open>
  The coefficient tuples in force when \<open>my_function\<close> is called (the cell that defines
  the function binds them anew, with five entries each).
\<close>

definition x_coefficients :: "int list" where
  "x_coefficients = [100, 50, 30, 10, 20]"

definition y_coefficients :: "int list" where
  "y_coefficients = [20, 90, 80, 30, 30]"

definition z_coefficients :: "int list" where
  "z_coefficients = [50, 10, 90, 40, 40]"

text \<open>
  One item of the generator that is unpacked into \<open>x, y, z\<close>:
  \<^verbatim>\<open>
  np.linspace(grid.LeftEdge[i] + grid.dds[i] / 2,
              grid.RightEdge[i] - grid.dds[i] / 2,
              grid.ActiveDimensions[i])
  \<close>
  The attributes of a grid are arrays with units, as \<open>yt\<close> builds them, and so is the
  result; the attribute \<open>.d\<close> read from it afterwards drops the unit and keeps the
  numbers. The model holds the numbers.
\<close>

definition axis_points :: "'f arith \<Rightarrow> ('f, 'a) grid_scheme \<Rightarrow> nat \<Rightarrow> error + 'f list" where
  "axis_points ar grid i =
     and_then (getitem (LeftEdge grid) i) (\<lambda>le.
     and_then (getitem (dds grid) i) (\<lambda>d.
     and_then (getitem (RightEdge grid) i) (\<lambda>re.
     and_then (getitem (dds grid) i) (\<lambda>d2.
     and_then (getitem (ActiveDimensions grid) i) (\<lambda>n.
       linspace ar (f_add ar le (f_div ar d (f_lit ar 2)))
                   (f_sub ar re (f_div ar d2 (f_lit ar 2))) n)))))"

text \<open>
  One term \<open>c * np.sin(2 ** (1 + i) * (v * np.pi * 2))\<close> of a sum of sine modes, at one
  element \<open>v\<close>.
\<close>

definition sine_term :: "'f arith \<Rightarrow> nat \<Rightarrow> int \<Rightarrow> 'f \<Rightarrow> 'f" where
  "sine_term ar i c v =
     f_mul ar (f_lit ar (real_of_int c))
       (f_sin ar (f_mul ar (f_lit ar (2 ^ (1 + i)))
                          (f_mul ar (f_mul ar v (f_lit ar pi)) (f_lit ar 2))))"

text \<open>
  \<open>sum(c * np.sin(2 ** (1 + i) * (x.d * np.pi * 2)) for i, c in enumerate(coefficients))\<close>:
  the builtin \<open>sum\<close> starts from 0, which the first addition broadcasts over the array,
  and adds the terms, each an array, from left to right.
\<close>

definition sine_modes :: "'f arith \<Rightarrow> int list \<Rightarrow> 'f list \<Rightarrow> 'f list" where
  "sine_modes ar coefficients x =
     foldl (map2 (f_add ar)) (map (\<lambda>_. f_lit ar 0) x)
       (map (\<lambda>(i, c). map (sine_term ar i c) x) (enumerate 0 coefficients))"

text \<open>
  \<open>a[:, None, None] \<circ> b[None, :, None] \<circ> c[None, None, :]\<close>: three one-dimensional arrays
  broadcast against each other along the axes 0, 1 and 2. A three-dimensional array is
  a list of planes, each a list of rows.
\<close>

definition broadcast3 ::
  "('f \<Rightarrow> 'f \<Rightarrow> 'f \<Rightarrow> 'f) \<Rightarrow> 'f list \<Rightarrow> 'f list \<Rightarrow> 'f list \<Rightarrow> 'f list list list" where
  "broadcast3 f a b c = map (\<lambda>u. map (\<lambda>v. map (\<lambda>w. f u v w) c) b) a"

definition map3 :: "('f \<Rightarrow> 'f) \<Rightarrow> 'f list list list \<Rightarrow> 'f list list list" where
  "map3 f a = map (map (map f)) a"

definition same_shape3 :: "'f list list list \<Rightarrow> 'f list list list \<Rightarrow> bool" where
  "same_shape3 a b = list_all2 (list_all2 (\<lambda>u v. length u = length v)) a b"

text \<open>
  \<open>a * b\<close> for two three-dimensional arrays. Operands of one shape multiply elementwise;
  the model reports ValueError for any other pair, so that a result is only obtained
  where the shapes agree.
\<close>

definition multiply3 ::
  "'f arith \<Rightarrow> 'f list list list \<Rightarrow> 'f list list list \<Rightarrow> error + 'f list list list" where
  "multiply3 ar a b =
     (if same_shape3 a b then Inr (map2 (map2 (map2 (f_mul ar))) a b) else Inl ValueError)"

text \<open>
  \<^verbatim>\<open>
  def my_function(grid, field_name):
      # We want N points from the cell-center to the cell-center on the other side
      x, y, z = (
          np.linspace(
              grid.LeftEdge[i] + grid.dds[i] / 2,
              grid.RightEdge[i] - grid.dds[i] / 2,
              grid.ActiveDimensions[i],
          )
          for i in (0, 1, 2)
      )
      r = np.sqrt(
          ((x.d - 0.5) ** 2)[:, None, None]
          + ((y.d - 0.5) ** 2)[None, :, None]
          + ((z.d - 0.5) ** 2)[None, None, :]
      )
      atten = np.exp(-20 * (1.1 * r**2))
      xv = sum(
          c * np.sin(2 ** (1 + i) * (x.d * np.pi * 2))
          for i, c in enumerate(x_coefficients)
      )
      yv = sum(
          c * np.sin(2 ** (1 + i) * (y.d * np.pi * 2))
          for i, c in enumerate(y_coefficients)
      )
      zv = sum(
          c * np.sin(2 ** (1 + i) * (z.d * np.pi * 2))
          for i, c in enumerate(z_coefficients)
      )
      return atten * (xv[:, None, None] * yv[None, :, None] * zv[None, None, :])
  \<close>
  The argument \<open>field_name\<close> is not read. An exception of an axis ends the call, in the
  order of the axes.
\<close>

definition my_function ::
  "'f arith \<Rightarrow> ('f, 'a) grid_scheme \<Rightarrow> string \<Rightarrow> error + 'f list list list" where
  "my_function ar grid field_name =
     and_then (axis_points ar grid 0) (\<lambda>x.
     and_then (axis_points ar grid 1) (\<lambda>y.
     and_then (axis_points ar grid 2) (\<lambda>z.
       let r = map3 (f_sqrt ar) (broadcast3 (\<lambda>u v w. f_add ar (f_add ar u v) w)
                 (map (\<lambda>v. f_square ar (f_sub ar v (f_lit ar 0.5))) x)
                 (map (\<lambda>v. f_square ar (f_sub ar v (f_lit ar 0.5))) y)
                 (map (\<lambda>v. f_square ar (f_sub ar v (f_lit ar 0.5))) z));
           atten = map3 (\<lambda>v. f_exp ar (f_mul ar (f_lit ar (- 20))
                                          (f_mul ar (f_lit ar 1.1) (f_square ar v)))) r;
           xv = sine_modes ar x_coefficients x;
           yv = sine_modes ar y_coefficients y;
           zv = sine_modes ar z_coefficients z
       in multiply3 ar atten (broadcast3 (\<lambda>u v w. f_mul ar (f_mul ar u v) w) xv yv zv))))"

text \<open>
  The two factors of an entry of the result as functions of a point: the Gaussian
  attenuation at a point, and the sum of sine modes at a coordinate, each with the
  operations and the order of the source.
\<close>

definition gaussian_attenuation :: "'f arith \<Rightarrow> 'f \<Rightarrow> 'f \<Rightarrow> 'f \<Rightarrow> 'f" where
  "gaussian_attenuation ar x y z =
     f_exp ar (f_mul ar (f_lit ar (- 20)) (f_mul ar (f_lit ar 1.1)
       (f_square ar (f_sqrt ar
          (f_add ar (f_add ar (f_square ar (f_sub ar x (f_lit ar 0.5)))
                              (f_square ar (f_sub ar y (f_lit ar 0.5))))
                    (f_square ar (f_sub ar z (f_lit ar 0.5))))))))"

definition sine_sum :: "'f arith \<Rightarrow> int list \<Rightarrow> 'f \<Rightarrow> 'f" where
  "sine_sum ar coefficients v =
     foldl (\<lambda>acc (i, c). f_add ar acc (sine_term ar i c v)) (f_lit ar 0)
       (enumerate 0 coefficients)"

text \<open>
  A grid as the grid-loading routine builds it: three components per attribute and
  cell counts that are not negative.
\<close>

definition well_formed_grid :: "('f, 'a) grid_scheme \<Rightarrow> bool" where
  "well_formed_grid grid \<longleftrightarrow>
     length (LeftEdge grid) = 3 \<and> length (RightEdge grid) = 3 \<and> length (dds grid) = 3 \<and>
     length (ActiveDimensions grid) = 3 \<and> list_all (\<lambda>n. 0 \<le> n) (ActiveDimensions grid)"


section \<open>The grid data of the third notebook\<close>

text \<open>
  A value stored in a grid dictionary: an integer, a list of floats, a list of integers,
  a precomputed field array, or a field function.
\<close>

datatype 'f pyvalue =
    PyInt int
  | PyFloats "'f list"
  | PyInts "int list"
  | PyArray "'f list list list"
  | PyFunction "'f grid \<Rightarrow> string \<Rightarrow> error + 'f list list list"

text \<open>
  \<^verbatim>\<open>
  grid_data = []
  for level, le, re, dims in _amr_grid_index:
      grid_data.append(
          {"level": level, "left_edge": le, "right_edge": re, "dimensions": dims,
           "density": my_function})
  \<close>
  \<open>_amr_grid_index\<close> is imported from \<open>yt.testing\<close>, which is not part of the material: the
  index is the last argument of the loop, a list of (level, left edge, right edge,
  dimensions). The function stored is \<open>my_function\<close>, with the arithmetic it will compute
  in when it is called.
\<close>

text \<open>The dictionary display appended for one item of the index.\<close>

definition grid_entry ::
  "'f arith \<Rightarrow> int \<Rightarrow> 'f list \<Rightarrow> 'f list \<Rightarrow> int list \<Rightarrow> (string \<rightharpoonup> 'f pyvalue)" where
  "grid_entry ar level le re dims =
     [''level'' \<mapsto> PyInt level, ''left_edge'' \<mapsto> PyFloats le, ''right_edge'' \<mapsto> PyFloats re,
      ''dimensions'' \<mapsto> PyInts dims, ''density'' \<mapsto> PyFunction (my_function ar)]"

fun grid_data_loop ::
  "'f arith \<Rightarrow> (string \<rightharpoonup> 'f pyvalue) list \<Rightarrow> (int \<times> 'f list \<times> 'f list \<times> int list) list \<Rightarrow>
   (string \<rightharpoonup> 'f pyvalue) list" where
  "grid_data_loop ar grid_data [] = grid_data"
| "grid_data_loop ar grid_data ((level, le, re, dims) # rest) =
     grid_data_loop ar (grid_data @ [grid_entry ar level le re dims]) rest"

definition grid_data ::
  "'f arith \<Rightarrow> (int \<times> 'f list \<times> 'f list \<times> int list) list \<Rightarrow> (string \<rightharpoonup> 'f pyvalue) list" where
  "grid_data ar amr_grid_index = grid_data_loop ar [] amr_grid_index"

definition is_array :: "'f pyvalue \<Rightarrow> bool" where
  "is_array v = (case v of PyArray a \<Rightarrow> True | _ \<Rightarrow> False)"

section \<open>The notebooks as programs\<close>

text \<open>
  The claims about which library functions the material calls, and in which order, are
  claims about the text of the three notebooks. Their code cells are transcribed below
  statement by statement (comments left out) into the expressions and statements of
  the Python subset they use.

  A literal keeps its source text: \<open>Number\<close> a number with its sign, \<open>Str\<close> the content of
  a string, \<open>Const\<close> one of \<open>None\<close>, \<open>True\<close>, \<open>False\<close>, and \<open>Slice\<close> a slice such as \<open>::32\<close>.
  \<open>Kw\<close> is a keyword argument, \<open>Item\<close> a key and its value in a dictionary display, \<open>BinOp\<close>
  an arithmetic or comparison operator between two operands, and \<open>Gen e t i\<close> the
  generator expression \<open>(e for t in i)\<close>.
\<close>

datatype expr =
    Number string
  | Str string
  | Const string
  | Name string
  | Attr expr string
  | Call expr "expr list"
  | Kw string expr
  | Subscr expr "expr list"
  | Slice string
  | TupleE "expr list"
  | ListE "expr list"
  | DictE "expr list"
  | Item expr expr
  | BinOp expr string expr
  | Gen expr expr expr

datatype stmt =
    Import string "string option"
  | FromImport string "string list"
  | Magic string
  | ExprS expr
  | Assign expr expr
  | Def string "string list" "stmt list"
  | For expr expr "stmt list"
  | Return expr

subsection \<open>TransferFunctionHelper tutorial\<close>

definition def_showme :: stmt where
  "def_showme =
     Def ''showme'' [''im'']
       [Assign (Subscr (Name ''im'') [BinOp (Name ''im'') ''!='' (Name ''im'')]) (Number ''0.0''),
        Assign (Name ''imb'') (Call (Attr (Name ''yt'') ''write_bitmap'') [Name ''im'', Const ''None'']),
        Return (Call (Name ''Image'') [Name ''imb''])]"

definition helper_setup :: "string \<Rightarrow> stmt list" where
  "helper_setup h =
     [Assign (Name h) (Call (Name ''TransferFunctionHelper'') [Name ''ds'']),
      ExprS (Call (Attr (Name h) ''set_field'') [TupleE [Str ''gas'', Str ''temperature'']]),
      ExprS (Call (Attr (Name h) ''set_bounds'') []),
      ExprS (Call (Attr (Name h) ''set_log'') [Const ''True'']),
      ExprS (Call (Attr (Name h) ''build_transfer_function'') []),
      ExprS (Call (Attr (Attr (Name h) ''tf'') ''add_layers'')
        [Number ''8'', Kw ''w'' (Number ''0.01''), Kw ''mi'' (Number ''4.0''), Kw ''ma'' (Number ''8.0''),
         Kw ''col_bounds'' (ListE [Number ''4.0'', Number ''8.0'']),
         Kw ''alpha'' (Call (Attr (Name ''np'') ''logspace'') [Number ''-1'', Number ''2'', Number ''7'']),
         Kw ''colormap'' (Str ''RdBu_r'')])]"

definition plot_mass_profile :: "string \<Rightarrow> stmt" where
  "plot_mass_profile h =
     ExprS (Call (Attr (Name h) ''plot'') [Kw ''profile_field'' (TupleE [Str ''gas'', Str ''mass''])])"

definition show_image :: "string \<Rightarrow> stmt" where
  "show_image im =
     ExprS (Call (Name ''showme'') [Subscr (Name im) [Slice '':'', Slice '':'', Slice '':3'']])"

definition notebook1 :: "stmt list" where
  "notebook1 =
     [Import ''numpy'' (Some ''np''),
      FromImport ''IPython.core.display'' [''Image''],
      Import ''yt'' None,
      FromImport ''yt.visualization.volume_rendering.transfer_function_helper''
        [''TransferFunctionHelper''],
      def_showme,
      Assign (Name ''ds'') (Call (Attr (Name ''yt'') ''load'') [Str ''Enzo_64/DD0043/data0043'']),
      Assign (Name ''tfh'') (Call (Name ''TransferFunctionHelper'') [Name ''ds'']),
      Assign (Name ''tfh'') (Call (Name ''TransferFunctionHelper'') [Name ''ds'']),
      ExprS (Call (Attr (Name ''tfh'') ''set_field'') [TupleE [Str ''gas'', Str ''temperature'']]),
      ExprS (Call (Attr (Name ''tfh'') ''set_log'') [Const ''True'']),
      ExprS (Call (Attr (Name ''tfh'') ''set_bounds'') []),
      ExprS (Call (Attr (Name ''tfh'') ''build_transfer_function'') []),
      ExprS (Call (Attr (Attr (Name ''tfh'') ''tf'') ''add_layers'') [Number ''5'']),
      ExprS (Call (Attr (Name ''tfh'') ''plot'') []),
      plot_mass_profile ''tfh'']
     @ helper_setup ''tfh'' @
     [ExprS (Call (Attr (Attr (Name ''tfh'') ''tf'') ''map_to_colormap'')
        [Number ''6.0'', Number ''8.0'', Kw ''colormap'' (Str ''Reds'')]),
      ExprS (Call (Attr (Attr (Name ''tfh'') ''tf'') ''map_to_colormap'')
        [Number ''-1.0'', Number ''6.0'', Kw ''colormap'' (Str ''Blues_r'')]),
      plot_mass_profile ''tfh'',
      Assign (TupleE [Name ''im'', Name ''sc''])
        (Call (Attr (Name ''yt'') ''volume_render'')
           [Name ''ds'', ListE [TupleE [Str ''gas'', Str ''temperature'']]]),
      Assign (Name ''source'') (Call (Attr (Name ''sc'') ''get_source'') []),
      ExprS (Call (Attr (Name ''source'') ''set_transfer_function'') [Attr (Name ''tfh'') ''tf'']),
      Assign (Name ''im2'') (Call (Attr (Name ''sc'') ''render'') []),
      show_image ''im2'']
     @ helper_setup ''tfh2'' @
     [ExprS (Call (Attr (Attr (Name ''tfh2'') ''tf'') ''map_to_colormap'')
        [Number ''6.0'', Number ''8.0'', Kw ''colormap'' (Str ''Reds''), Kw ''scale'' (Number ''5.0'')]),
      ExprS (Call (Attr (Attr (Name ''tfh2'') ''tf'') ''map_to_colormap'')
        [Number ''-1.0'', Number ''6.0'', Kw ''colormap'' (Str ''Blues_r''), Kw ''scale'' (Number ''1.0'')]),
      plot_mass_profile ''tfh2'',
      ExprS (Call (Attr (Name ''source'') ''set_transfer_function'') [Attr (Name ''tfh2'') ''tf'']),
      Assign (Name ''im3'') (Call (Attr (Name ''sc'') ''render'') []),
      show_image ''im3'']"

subsection \<open>OWLS examples\<close>

definition projection_plot :: "string \<Rightarrow> stmt" where
  "projection_plot field =
     Assign (Name ''pz'')
       (Call (Attr (Name ''yt'') ''ProjectionPlot'')
          [Name ''ds'', Str ''z'', TupleE [Str ''gas'', Str field]])"

definition particle_field :: "string \<Rightarrow> string \<Rightarrow> stmt" where
  "particle_field ptype field = ExprS (Subscr (Name ''ad'') [TupleE [Str ptype, Str field]])"

definition notebook2 :: "stmt list" where
  "notebook2 =
     [Magic ''%matplotlib inline'',
      Import ''yt'' None,
      Assign (Name ''ds'') (Call (Attr (Name ''yt'') ''load_sample'') [Str ''snapshot_033'']),
      Assign (Name ''ad'') (Call (Attr (Name ''ds'') ''all_data'') []),
      ExprS (Attr (Name ''ds'') ''field_list''),
      ExprS (Attr (Name ''ds'') ''derived_field_list''),
      particle_field ''PartType0'' ''Coordinates'',
      particle_field ''PartType4'' ''IronFromSNIa'',
      particle_field ''PartType1'' ''ParticleIDs'',
      particle_field ''PartType0'' ''Hydrogen'',
      projection_plot ''H_density'',
      ExprS (Call (Attr (Name ''pz'') ''show'') []),
      projection_plot ''H_p0_density'',
      ExprS (Call (Attr (Name ''pz'') ''show'') [])]"

subsection \<open>Loading data via functions\<close>

text \<open>
  \<open>sum(c * np.sin(2 ** e * a) for i, c in enumerate(cs))\<close>, the form of every sum of sine
  modes in the notebook, with exponent \<open>e\<close>, argument \<open>a\<close> and coefficient tuple \<open>cs\<close>.
\<close>

definition mode_sum :: "expr \<Rightarrow> expr \<Rightarrow> string \<Rightarrow> expr" where
  "mode_sum e a cs =
     Call (Name ''sum'')
       [Gen (BinOp (Name ''c'') ''*''
               (Call (Attr (Name ''np'') ''sin'') [BinOp (BinOp (Number ''2'') ''**'' e) ''*'' a]))
            (TupleE [Name ''i'', Name ''c''])
            (Call (Name ''enumerate'') [Name cs])]"

text \<open>\<open>x * np.pi * 2\<close> for an expression \<open>x\<close>.\<close>

definition two_pi_times :: "expr \<Rightarrow> expr" where
  "two_pi_times x = BinOp (BinOp x ''*'' (Attr (Name ''np'') ''pi'')) ''*'' (Number ''2'')"

text \<open>\<open>(x - 0.5) ** 2\<close> for an expression \<open>x\<close>.\<close>

definition centered_square :: "expr \<Rightarrow> expr" where
  "centered_square x = BinOp (BinOp x ''-'' (Number ''0.5'')) ''**'' (Number ''2'')"

text \<open>\<open>np.exp(-20 * (1.1 * r**2))\<close>.\<close>

definition exp_attenuation :: expr where
  "exp_attenuation =
     Call (Attr (Name ''np'') ''exp'')
       [BinOp (Number ''-20'') ''*''
          (BinOp (Number ''1.1'') ''*'' (BinOp (Name ''r'') ''**'' (Number ''2'')))]"

definition coefficient_tuple :: "string \<Rightarrow> string list \<Rightarrow> stmt" where
  "coefficient_tuple v cs = Assign (Name v) (TupleE (map Number cs))"

definition stride32 :: "expr \<Rightarrow> expr" where
  "stride32 a = Subscr a [Slice ''::32'', Slice ''::32'']"

text \<open>The statements of the one- and two-dimensional demonstrations that compute.\<close>

definition sines_1d :: stmt where
  "sines_1d =
     Assign (Name ''y'')
       (mode_sum (BinOp (Number ''2'') ''+'' (Name ''i'')) (two_pi_times (Name ''x'')) ''coefficients'')"

definition atten_1d :: stmt where
  "atten_1d =
     Assign (Name ''atten'')
       (Call (Attr (Name ''np'') ''exp'')
          [BinOp (Number ''-20'') ''*''
             (BinOp (BinOp (Number ''1.1'') ''*'' (BinOp (Name ''x'') ''-'' (Number ''0.5'')))
                ''**'' (Number ''2''))])"

definition plot_product_1d :: stmt where
  "plot_product_1d =
     ExprS (Call (Attr (Name ''ax4'') ''plot'') [Name ''x'', BinOp (Name ''y'') ''*'' (Name ''atten'')])"

definition trig_1d :: "stmt list" where
  "trig_1d =
     [Assign (Name ''x'') (Subscr (Attr (Name ''np'') ''mgrid'') [Slice ''0.0:1.0:512j'']),
      coefficient_tuple ''coefficients'' [''100'', ''50'', ''30'', ''10''],
      sines_1d,
      atten_1d,
      Assign (TupleE [Name ''fig'', TupleE [TupleE [Name ''ax1'', Name ''ax2''],
                                            TupleE [Name ''ax3'', Name ''ax4'']]])
        (Call (Attr (Name ''plt'') ''subplots'') [Number ''2'', Number ''2'', Kw ''dpi'' (Number ''150'')]),
      plot_product_1d,
      ExprS (Call (Attr (Name ''ax2'') ''plot'') [Name ''x'', Name ''atten'']),
      ExprS (Call (Attr (Name ''ax3'') ''plot'') [Name ''x'', Name ''y'']),
      ExprS (Call (Attr (Name ''ax1'') ''axis'') [Const ''False''])]"

definition phase_2d :: "expr \<Rightarrow> expr" where
  "phase_2d v = BinOp (two_pi_times v) ''+'' (BinOp (Number ''2'') ''**'' (Name ''i''))"

definition sines_2d :: stmt where
  "sines_2d =
     Assign (Name ''z'')
       (BinOp
          (mode_sum (BinOp (Number ''1'') ''+'' (Name ''i'')) (phase_2d (Name ''x'')) ''x_coefficients'')
          ''*''
          (mode_sum (BinOp (Number ''1'') ''+'' (Name ''i'')) (phase_2d (Name ''y'')) ''y_coefficients''))"

definition radius_2d :: stmt where
  "radius_2d =
     Assign (Name ''r'')
       (Call (Attr (Name ''np'') ''sqrt'')
          [BinOp (centered_square (Name ''x'')) ''+'' (centered_square (Name ''y''))])"

definition atten_2d :: stmt where
  "atten_2d = Assign (Name ''atten'') exp_attenuation"

definition mesh_2d :: stmt where
  "mesh_2d =
     ExprS (Call (Attr (Name ''plt'') ''pcolormesh'')
       [Name ''x'', Name ''y'', BinOp (Name ''z'') ''*'' (Name ''atten'')])"

definition mesh_coarse :: stmt where
  "mesh_coarse =
     ExprS (Call (Attr (Name ''plt'') ''pcolormesh'')
       [stride32 (Name ''x''), stride32 (Name ''y''),
        stride32 (BinOp (Name ''z'') ''*'' (Name ''atten''))])"

definition trig_2d :: "stmt list" where
  "trig_2d =
     [Assign (TupleE [Name ''x'', Name ''y''])
        (Subscr (Attr (Name ''np'') ''mgrid'') [Slice ''0.0:1.0:512j'', Slice ''0.0:1.0:512j'']),
      coefficient_tuple ''x_coefficients'' [''100'', ''50'', ''30'', ''10''],
      coefficient_tuple ''y_coefficients'' [''20'', ''90'', ''80'', ''30''],
      sines_2d,
      radius_2d,
      atten_2d,
      mesh_2d,
      mesh_coarse]"

text \<open>\<open>grid.a[i]\<close> and \<open>v.d\<close>, as \<open>my_function\<close> writes them.\<close>

definition grid_attr :: "string \<Rightarrow> expr" where
  "grid_attr a = Subscr (Attr (Name ''grid'') a) [Name ''i'']"

definition values_of :: "string \<Rightarrow> expr" where
  "values_of v = Attr (Name v) ''d''"

definition modes_3d :: "string \<Rightarrow> string \<Rightarrow> expr" where
  "modes_3d v cs =
     mode_sum (BinOp (Number ''1'') ''+'' (Name ''i'')) (two_pi_times (values_of v)) cs"

definition def_my_function :: stmt where
  "def_my_function =
     Def ''my_function'' [''grid'', ''field_name'']
       [Assign (TupleE [Name ''x'', Name ''y'', Name ''z''])
          (Gen (Call (Attr (Name ''np'') ''linspace'')
                  [BinOp (grid_attr ''LeftEdge'') ''+'' (BinOp (grid_attr ''dds'') ''/'' (Number ''2'')),
                   BinOp (grid_attr ''RightEdge'') ''-'' (BinOp (grid_attr ''dds'') ''/'' (Number ''2'')),
                   grid_attr ''ActiveDimensions''])
               (Name ''i'')
               (TupleE [Number ''0'', Number ''1'', Number ''2''])),
        Assign (Name ''r'')
          (Call (Attr (Name ''np'') ''sqrt'')
             [BinOp
                (BinOp
                   (Subscr (centered_square (values_of ''x'')) [Slice '':'', Const ''None'', Const ''None''])
                   ''+''
                   (Subscr (centered_square (values_of ''y'')) [Const ''None'', Slice '':'', Const ''None'']))
                ''+''
                (Subscr (centered_square (values_of ''z'')) [Const ''None'', Const ''None'', Slice '':''])]),
        Assign (Name ''atten'') exp_attenuation,
        Assign (Name ''xv'') (modes_3d ''x'' ''x_coefficients''),
        Assign (Name ''yv'') (modes_3d ''y'' ''y_coefficients''),
        Assign (Name ''zv'') (modes_3d ''z'' ''z_coefficients''),
        Return
          (BinOp (Name ''atten'') ''*''
             (BinOp
                (BinOp
                   (Subscr (Name ''xv'') [Slice '':'', Const ''None'', Const ''None''])
                   ''*''
                   (Subscr (Name ''yv'') [Const ''None'', Slice '':'', Const ''None'']))
                ''*''
                (Subscr (Name ''zv'') [Const ''None'', Const ''None'', Slice '':''])))]"

definition grid_data_for :: stmt where
  "grid_data_for =
     For (TupleE [Name ''level'', Name ''le'', Name ''re'', Name ''dims'']) (Name ''_amr_grid_index'')
       [ExprS (Call (Attr (Name ''grid_data'') ''append'')
          [DictE [Item (Str ''level'') (Name ''level''),
                  Item (Str ''left_edge'') (Name ''le''),
                  Item (Str ''right_edge'') (Name ''re''),
                  Item (Str ''dimensions'') (Name ''dims''),
                  Item (Str ''density'') (Name ''my_function'')]])]"

definition load_grids :: stmt where
  "load_grids =
     Assign (Name ''ds'')
       (Call (Attr (Name ''yt'') ''load_amr_grids'')
          [Name ''grid_data'', ListE [Number ''32'', Number ''32'', Number ''32''],
           Kw ''bbox'' (Call (Attr (Name ''np'') ''array'')
             [ListE [ListE [Number ''0.0'', Number ''1.0''], ListE [Number ''0.0'', Number ''1.0''],
                     ListE [Number ''0.0'', Number ''1.0'']]])])"

definition notebook3 :: "stmt list" where
  "notebook3 =
     [Import ''matplotlib.pyplot'' (Some ''plt''),
      Import ''numpy'' (Some ''np''),
      Import ''yt'' None]
     @ trig_1d @ trig_2d @
     [coefficient_tuple ''x_coefficients'' [''100'', ''50'', ''30'', ''10'', ''20''],
      coefficient_tuple ''y_coefficients'' [''20'', ''90'', ''80'', ''30'', ''30''],
      coefficient_tuple ''z_coefficients'' [''50'', ''10'', ''90'', ''40'', ''40''],
      def_my_function,
      FromImport ''yt.testing'' [''_amr_grid_index''],
      Assign (Name ''grid_data'') (ListE []),
      grid_data_for,
      load_grids,
      Assign (Name ''p'')
        (Call (Attr (Call (Attr (Subscr (Attr (Name ''ds'') ''r'') [Slice '':'', Number ''0.5'', Slice '':''])
                            ''plot'')
                      [Str ''density''])
                 ''set_log'')
           [Str ''density'', Const ''False'']),
      ExprS (Call (Attr (Name ''p'') ''zoom'') [Number ''4''])]"

definition material :: "stmt list" where
  "material = notebook1 @ notebook2 @ notebook3"

section \<open>Calls made by the notebooks\<close>

text \<open>
  The call expressions inside an expression, in the order in which the calls return: the
  callee, then the arguments from left to right, then the call itself. The element of a
  generator expression is evaluated by the call that consumes the generator and is
  listed before that call.
\<close>

fun calls :: "expr \<Rightarrow> expr list" where
  "calls (Call f args) = calls f @ concat (map calls args) @ [Call f args]"
| "calls (Attr e a) = calls e"
| "calls (Kw k e) = calls e"
| "calls (Subscr e idx) = calls e @ concat (map calls idx)"
| "calls (TupleE es) = concat (map calls es)"
| "calls (ListE es) = concat (map calls es)"
| "calls (DictE es) = concat (map calls es)"
| "calls (Item k v) = calls k @ calls v"
| "calls (BinOp a opr b) = calls a @ calls b"
| "calls (Gen elt target iter) = calls iter @ calls elt"
| "calls _ = []"

text \<open>The variable names that occur in an expression.\<close>

fun names :: "expr \<Rightarrow> string list" where
  "names (Name n) = [n]"
| "names (Call f args) = names f @ concat (map names args)"
| "names (Attr e a) = names e"
| "names (Kw k e) = names e"
| "names (Subscr e idx) = names e @ concat (map names idx)"
| "names (TupleE es) = concat (map names es)"
| "names (ListE es) = concat (map names es)"
| "names (DictE es) = concat (map names es)"
| "names (Item k v) = names k @ names v"
| "names (BinOp a opr b) = names a @ names b"
| "names (Gen elt target iter) = names iter @ names elt"
| "names _ = []"

text \<open>
  The calls a statement makes when it runs at the top level of a notebook: a function
  definition makes none, a loop makes the calls of its body (once for each item).
\<close>

fun run_calls :: "stmt \<Rightarrow> expr list" where
  "run_calls (ExprS e) = calls e"
| "run_calls (Assign target e) = calls e @ calls target"
| "run_calls (For target iter body) = calls iter @ concat (map run_calls body)"
| "run_calls (Return e) = calls e"
| "run_calls _ = []"

definition trace :: "stmt list \<Rightarrow> expr list" where
  "trace nb = concat (map run_calls nb)"

text \<open>Every call written anywhere in a statement, function bodies included.\<close>

fun written_calls :: "stmt \<Rightarrow> expr list" where
  "written_calls (ExprS e) = calls e"
| "written_calls (Assign target e) = calls e @ calls target"
| "written_calls (For target iter body) = calls iter @ concat (map written_calls body)"
| "written_calls (Def f params body) = concat (map written_calls body)"
| "written_calls (Return e) = calls e"
| "written_calls _ = []"

text \<open>
  The names a notebook imports: a module under its local name, or a name taken from a
  module.
\<close>

fun imported :: "stmt \<Rightarrow> (string \<times> string) list" where
  "imported (Import lib None) = [(lib, lib)]"
| "imported (Import lib (Some alias)) = [(alias, lib)]"
| "imported _ = []"

fun imported_from :: "stmt \<Rightarrow> (string \<times> string) list" where
  "imported_from (FromImport lib ns) = map (\<lambda>n. (n, lib)) ns"
| "imported_from _ = []"

text \<open>
  A call of a library function by name: \<open>m.f(...)\<close> for an imported module \<open>m\<close>, or
  \<open>f(...)\<close> for a name \<open>f\<close> imported from a module. The result is the module and the
  function.
\<close>

fun library_call :: "stmt list \<Rightarrow> expr \<Rightarrow> (string \<times> string) option" where
  "library_call nb (Call (Attr (Name m) f) args) =
     map_option (\<lambda>lib. (lib, f)) (map_of (concat (map imported nb)) m)"
| "library_call nb (Call (Name f) args) =
     map_option (\<lambda>lib. (lib, f)) (map_of (concat (map imported_from nb)) f)"
| "library_call nb _ = None"

definition library_calls :: "stmt list \<Rightarrow> (string \<times> string) list" where
  "library_calls nb =
     remdups (concat (map (\<lambda>c. case library_call nb c of None \<Rightarrow> [] | Some mf \<Rightarrow> [mf])
                          (concat (map written_calls nb))))"

section \<open>Load, configure, render\<close>

text \<open>
  A call that loads a dataset, a call that configures a visualization, and a call that
  renders or displays. \<open>showme\<close> is the display function the first notebook defines.
\<close>

fun is_load :: "expr \<Rightarrow> bool" where
  "is_load (Call (Attr (Name m) f) args) =
     (m = ''yt'' \<and> f \<in> set [''load'', ''load_sample'', ''load_amr_grids''])"
| "is_load _ = False"

fun called :: "expr \<Rightarrow> string" where
  "called (Call (Attr e f) args) = f"
| "called (Call (Name f) args) = f"
| "called _ = []"

definition configuration_calls :: "string list" where
  "configuration_calls =
     [''set_field'', ''set_log'', ''set_bounds'', ''build_transfer_function'', ''add_layers'',
      ''set_transfer_function'', ''map_to_colormap'']"

definition display_calls :: "string list" where
  "display_calls =
     [''volume_render'', ''render'', ''plot'', ''show'', ''showme'', ''ProjectionPlot'',
      ''pcolormesh'']"

definition is_configure :: "expr \<Rightarrow> bool" where
  "is_configure c = (called c \<in> set configuration_calls)"

definition is_render :: "expr \<Rightarrow> bool" where
  "is_render c = (called c \<in> set display_calls)"

text \<open>The variables an assignment target binds.\<close>

fun targets :: "expr \<Rightarrow> string list" where
  "targets (Name n) = [n]"
| "targets (TupleE es) = concat (map targets es)"
| "targets _ = []"

text \<open>
  The variables that hold a dataset or an object made from one: the target of an
  assignment whose right-hand side loads a dataset or mentions such a variable.
\<close>

fun bind_dataset :: "string list \<Rightarrow> stmt \<Rightarrow> string list" where
  "bind_dataset vs (Assign target e) =
     (if list_ex is_load (calls e) \<or> list_ex (\<lambda>n. n \<in> set vs) (names e)
      then vs @ targets target else vs)"
| "bind_dataset vs _ = vs"

definition dataset_names :: "stmt list \<Rightarrow> string list" where
  "dataset_names nb = foldl bind_dataset [] nb"

definition on_dataset :: "stmt list \<Rightarrow> expr \<Rightarrow> bool" where
  "on_dataset nb c = list_ex (\<lambda>n. n \<in> set (dataset_names nb)) (names c)"

text \<open>
  What holds of a call \<open>c\<close> given the calls made before it: a configuration call is made
  on an object of a dataset, after a load; a render or display call on an object of a
  dataset is made after a load.
\<close>

definition loaded_first :: "stmt list \<Rightarrow> expr list \<Rightarrow> expr \<Rightarrow> bool" where
  "loaded_first nb earlier c \<longleftrightarrow>
     (is_configure c \<longrightarrow> on_dataset nb c \<and> list_ex is_load earlier) \<and>
     (is_render c \<and> on_dataset nb c \<longrightarrow> list_ex is_load earlier)"

definition load_precedes_use :: "stmt list \<Rightarrow> bool" where
  "load_precedes_use nb \<longleftrightarrow>
     length (filter is_load (trace nb)) = 1 \<and>
     (\<forall>i < length (trace nb). loaded_first nb (take i (trace nb)) (trace nb ! i))"

text \<open>
  The order load, then configure, then render or display, of the calls that concern a
  dataset: no load follows a configuration call or a render or display call on the
  dataset, and no configuration call follows a render or display call on the dataset.
\<close>

definition phases_in_order :: "stmt list \<Rightarrow> bool" where
  "phases_in_order nb \<longleftrightarrow>
     (\<forall>j < length (trace nb). \<forall>i < j.
        \<not> (is_load (trace nb ! j) \<and>
           (is_configure (trace nb ! i) \<or>
            is_render (trace nb ! i) \<and> on_dataset nb (trace nb ! i))) \<and>
        \<not> (is_configure (trace nb ! j) \<and>
           is_render (trace nb ! i) \<and> on_dataset nb (trace nb ! i)))"

text \<open>A check of the calls as a recursion, each seen after those before it.\<close>

fun each_after :: "('a list \<Rightarrow> 'a \<Rightarrow> bool) \<Rightarrow> 'a list \<Rightarrow> 'a list \<Rightarrow> bool" where
  "each_after P earlier [] = True"
| "each_after P earlier (x # xs) = (P earlier x \<and> each_after P (earlier @ [x]) xs)"

section \<open>Statements that only invoke the library\<close>

text \<open>
  An expression without arithmetic, comparison, generator or dictionary display: made
  of literals, names, attribute reads, subscripts, sequences and calls.
\<close>

fun operator_free :: "expr \<Rightarrow> bool" where
  "operator_free (Call f args) = (operator_free f \<and> list_all operator_free args)"
| "operator_free (Attr e a) = operator_free e"
| "operator_free (Kw k e) = operator_free e"
| "operator_free (Subscr e idx) = (operator_free e \<and> list_all operator_free idx)"
| "operator_free (TupleE es) = list_all operator_free es"
| "operator_free (ListE es) = list_all operator_free es"
| "operator_free (DictE es) = False"
| "operator_free (Item k v) = False"
| "operator_free (BinOp a opr b) = False"
| "operator_free (Gen elt target iter) = False"
| "operator_free _ = True"

text \<open>The functions a notebook defines itself.\<close>

fun defined :: "stmt \<Rightarrow> string list" where
  "defined (Def f params body) = [f]"
| "defined _ = []"

definition own_functions :: "string list" where
  "own_functions = concat (map defined material)"

definition calls_own :: "expr \<Rightarrow> bool" where
  "calls_own e = list_ex (\<lambda>c. case c of Call (Name f) args \<Rightarrow> f \<in> set own_functions | _ \<Rightarrow> False) (calls e)"

text \<open>
  A statement that is an import, or an expression or assignment that is operator-free
  and calls no function of the material: it binds literals or invokes the library with
  literals and bound names as arguments. A function definition, a loop and a statement
  that computes are not of this kind.
\<close>

fun plain :: "stmt \<Rightarrow> bool" where
  "plain (Import lib alias) = True"
| "plain (FromImport lib ns) = True"
| "plain (Magic m) = True"
| "plain (ExprS e) = (operator_free e \<and> \<not> calls_own e)"
| "plain (Assign target e) = (operator_free target \<and> operator_free e \<and> \<not> calls_own e)"
| "plain (Def f params body) = False"
| "plain (For target iter body) = False"
| "plain (Return e) = False"

text \<open>The six functions the specification names as the whole call surface.\<close>

definition named_api :: "string list" where
  "named_api =
     [''load'', ''load_sample'', ''load_amr_grids'', ''ProjectionPlot'', ''TransferFunctionHelper'',
      ''volume_render'']"

text \<open>The functions of the \<open>yt\<close> package among the library calls of a notebook.\<close>

definition yt_calls :: "stmt list \<Rightarrow> string list" where
  "yt_calls nb = map snd (filter (\<lambda>(lib, f). take 2 lib = ''yt'') (library_calls nb))"

section \<open>Properties of showme\<close>

lemma float_ne_self: "float_ne x x = (x = NaN)"
  by (cases x) simp_all

lemma screen_nans_eq:
  "screen_nans im =
     (if writeable im
      then Inr (im\<lparr>data := map (\<lambda>x. if x = NaN then Num 0 else x) (data im)\<rparr>)
      else Inl ValueError)"
proof -
  have "map (\<lambda>(j, x). if map2 float_ne (data im) (data im) ! (j div 1) then Num 0 else x)
          (enumerate 0 (data im)) = map (\<lambda>x. if x = NaN then Num 0 else x) (data im)"
    by (rule nth_equalityI) (simp_all add: nth_enumerate_eq float_ne_self)
  then show ?thesis
    by (simp add: screen_nans_def setitem_mask_def array_ne_def)
qed


text \<open>
  Claim C3, as stated, fails: on an array that is not writeable the assignment
  \<open>im[im != im] = 0.0\<close> raises ValueError and the array keeps its NaN entry.
\<close>

theorem read_only_keeps_nan:
  "screen_nans \<lparr>shape = [1, 1, 3], data = [Num (2::int), NaN, Num 5], writeable = False\<rparr> =
     Inl ValueError \<and>
   NaN \<in> set (data (after_screening
     \<lparr>shape = [1, 1, 3], data = [Num (2::int), NaN, Num 5], writeable = False\<rparr>))"
  by (simp add: after_screening_def screen_nans_eq)

text \<open>
  Claim C3, amended. For every writeable image array passed to \<open>showme\<close>, the assignment
  \<open>im[im != im] = 0.0\<close> succeeds, keeps the shape, sets exactly the NaN entries to 0.0,
  leaves every other entry as it was, and leaves no NaN entry in the array; this is the
  array the caller holds afterwards, also when \<open>showme\<close> has returned. For an array that is
  not writeable the assignment raises ValueError, the array stays as it was, and \<open>showme\<close>
  raises that exception.
\<close>

theorem screen_nans_exact:
  "(writeable im \<longrightarrow>
      (\<exists>im1. screen_nans im = Inr im1 \<and> after_screening im = im1 \<and>
         shape im1 = shape im \<and> length (data im1) = length (data im) \<and>
         (\<forall>i < length (data im).
            (data im ! i = NaN \<longrightarrow> data im1 ! i = Num 0) \<and>
            (data im ! i \<noteq> NaN \<longrightarrow> data im1 ! i = data im ! i)) \<and>
         NaN \<notin> set (data im1) \<and>
         (\<forall>im2 shown. showme write_bitmap ipy_Image im = Inr (im2, shown) \<longrightarrow> im2 = im1))) \<and>
   (\<not> writeable im \<longrightarrow>
      screen_nans im = Inl ValueError \<and> after_screening im = im \<and>
      showme write_bitmap ipy_Image im = Inl ValueError)"
  by (auto simp add: screen_nans_eq after_screening_def showme_def and_then_def split: sum.splits)

theorem screen_nans_exact_witness:
  "screen_nans \<lparr>shape = [1, 1, 3], data = [Num (2::int), NaN, Num 5], writeable = True\<rparr> =
     Inr \<lparr>shape = [1, 1, 3], data = [Num 2, Num 0, Num 5], writeable = True\<rparr>"
  using screen_nans_exact
    [of "\<lparr>shape = [1, 1, 3], data = [Num (2::int), NaN, Num 5], writeable = True\<rparr>"]
  by (simp add: screen_nans_eq)

section \<open>Properties of my_function\<close>

subsection \<open>Sample points, sine modes and broadcasting\<close>

lemma linspace_ok:
  assumes "0 \<le> n"
  shows "\<exists>xs. linspace ar a b n = Inr xs \<and> length xs = nat n \<and>
           (1 < n \<longrightarrow> xs ! (nat n - 1) = b)"
  using assms by (simp add: linspace_def Let_def)

lemma axis_points_ok:
  assumes "well_formed_grid g" "i < 3"
  shows "\<exists>xs. axis_points ar g i = Inr xs \<and> length xs = nat (ActiveDimensions g ! i) \<and>
     (1 < ActiveDimensions g ! i \<longrightarrow>
        xs ! (nat (ActiveDimensions g ! i) - 1) =
          f_sub ar (RightEdge g ! i) (f_div ar (dds g ! i) (f_lit ar 2)))"
proof -
  have n: "0 \<le> ActiveDimensions g ! i"
    using assms by (simp add: well_formed_grid_def list_all_length)
  have "axis_points ar g i =
      linspace ar (f_add ar (LeftEdge g ! i) (f_div ar (dds g ! i) (f_lit ar 2)))
                  (f_sub ar (RightEdge g ! i) (f_div ar (dds g ! i) (f_lit ar 2)))
                  (ActiveDimensions g ! i)"
    using assms by (simp add: axis_points_def getitem_def and_then_def well_formed_grid_def)
  then show ?thesis using linspace_ok[OF n] by simp
qed

lemma foldl_map2_length:
  "\<forall>t \<in> set ts. length t = length acc \<Longrightarrow> length (foldl (map2 f) acc ts) = length acc"
  by (induction ts arbitrary: acc) auto

lemma foldl_map2_nth:
  "\<forall>t \<in> set ts. length t = length acc \<Longrightarrow> k < length acc \<Longrightarrow>
   foldl (map2 f) acc ts ! k = foldl f (acc ! k) (map (\<lambda>t. t ! k) ts)"
  by (induction ts arbitrary: acc) auto

lemma sine_modes_length: "length (sine_modes ar cs x) = length x"
  unfolding sine_modes_def by (subst foldl_map2_length) auto

lemma foldl_terms:
  "foldl (\<lambda>acc (i, c). f acc (g i c)) a ics = foldl f a (map (\<lambda>(i, c). g i c) ics)"
  by (induction ics arbitrary: a) auto

lemma sine_modes_nth:
  assumes "k < length x"
  shows "sine_modes ar cs x ! k = sine_sum ar cs (x ! k)"
proof -
  have "sine_modes ar cs x ! k =
      foldl (f_add ar) (f_lit ar 0)
        (map (\<lambda>t. t ! k) (map (\<lambda>(i, c). map (sine_term ar i c) x) (enumerate 0 cs)))"
    unfolding sine_modes_def using assms by (subst foldl_map2_nth) auto
  also have "map (\<lambda>t. t ! k) (map (\<lambda>(i, c). map (sine_term ar i c) x) (enumerate 0 cs)) =
      map (\<lambda>(i, c). sine_term ar i c (x ! k)) (enumerate 0 cs)"
    using assms by (auto simp add: case_prod_unfold)
  finally show ?thesis
    by (simp add: sine_sum_def foldl_terms[where g = "\<lambda>i c. sine_term ar i c (x ! k)"])
qed

lemma broadcast3_shape:
  "length (broadcast3 f a b c) = length a"
  "i < length a \<Longrightarrow> length (broadcast3 f a b c ! i) = length b"
  "i < length a \<Longrightarrow> j < length b \<Longrightarrow> length (broadcast3 f a b c ! i ! j) = length c"
  "i < length a \<Longrightarrow> j < length b \<Longrightarrow> k < length c \<Longrightarrow>
     broadcast3 f a b c ! i ! j ! k = f (a ! i) (b ! j) (c ! k)"
  by (simp_all add: broadcast3_def)

lemma map3_broadcast3:
  "map3 g (broadcast3 f a b c) = broadcast3 (\<lambda>u v w. g (f u v w)) a b c"
  by (simp add: map3_def broadcast3_def comp_def)

lemma same_shape3_broadcast3:
  "length a = length a' \<Longrightarrow> length b = length b' \<Longrightarrow> length c = length c' \<Longrightarrow>
   same_shape3 (broadcast3 f a b c) (broadcast3 h a' b' c')"
  by (simp add: same_shape3_def list_all2_conv_all_nth broadcast3_shape)

lemma multiply3_nth:
  "same_shape3 A B \<Longrightarrow> i < length A \<Longrightarrow> j < length (A ! i) \<Longrightarrow> k < length (A ! i ! j) \<Longrightarrow>
   map2 (map2 (map2 f)) A B ! i ! j ! k = f (A ! i ! j ! k) (B ! i ! j ! k)"
  by (simp add: same_shape3_def list_all2_conv_all_nth)

lemma multiply3_shape:
  assumes "same_shape3 A B"
  shows "length (map2 (map2 (map2 f)) A B) = length A"
    and "i < length A \<Longrightarrow> length (map2 (map2 (map2 f)) A B ! i) = length (A ! i)"
    and "i < length A \<Longrightarrow> j < length (A ! i) \<Longrightarrow>
         length (map2 (map2 (map2 f)) A B ! i ! j) = length (A ! i ! j)"
  using assms by (simp_all add: same_shape3_def list_all2_conv_all_nth)

lemma my_function_points:
  assumes "axis_points ar g 0 = Inr x" "axis_points ar g 1 = Inr y" "axis_points ar g 2 = Inr z"
  shows "\<exists>res. my_function ar g f = Inr res \<and> length res = length x \<and>
     (\<forall>i<length x. length (res ! i) = length y \<and>
        (\<forall>j<length y. length (res ! i ! j) = length z \<and>
           (\<forall>k<length z. res ! i ! j ! k =
               f_mul ar (gaussian_attenuation ar (x ! i) (y ! j) (z ! k))
                 (f_mul ar (f_mul ar (sine_sum ar x_coefficients (x ! i))
                                     (sine_sum ar y_coefficients (y ! j)))
                           (sine_sum ar z_coefficients (z ! k))))))"
proof -
  let ?sq = "\<lambda>v. f_square ar (f_sub ar v (f_lit ar 0.5))"
  let ?A = "broadcast3 (\<lambda>u v w. f_exp ar (f_mul ar (f_lit ar (- 20))
                (f_mul ar (f_lit ar 1.1) (f_square ar (f_sqrt ar (f_add ar (f_add ar u v) w))))))
              (map ?sq x) (map ?sq y) (map ?sq z)"
  let ?B = "broadcast3 (\<lambda>u v w. f_mul ar (f_mul ar u v) w) (sine_modes ar x_coefficients x)
              (sine_modes ar y_coefficients y) (sine_modes ar z_coefficients z)"
  have same: "same_shape3 ?A ?B"
    by (rule same_shape3_broadcast3) (simp_all add: sine_modes_length)
  have "my_function ar g f = multiply3 ar ?A ?B"
    by (simp only: my_function_def assms and_then_def sum.case Let_def map3_broadcast3)
  then have eq: "my_function ar g f = Inr (map2 (map2 (map2 (f_mul ar))) ?A ?B)"
    using same by (simp only: multiply3_def if_True)
  show ?thesis
    unfolding eq
    by (simp add: multiply3_shape[OF same] multiply3_nth[OF same] broadcast3_shape sine_modes_length
        sine_modes_nth gaussian_attenuation_def)
qed

lemma my_function_total:
  assumes "well_formed_grid g"
  shows "\<exists>res. my_function ar g f = Inr res"
proof -
  obtain x y z where "axis_points ar g 0 = Inr x" "axis_points ar g 1 = Inr y"
      "axis_points ar g 2 = Inr z"
    using axis_points_ok[OF assms, of 0 ar] axis_points_ok[OF assms, of 1 ar]
      axis_points_ok[OF assms, of 2 ar]
    by auto
  then show ?thesis using my_function_points by blast
qed
subsection \<open>Sample points in exact arithmetic\<close>




subsection \<open>Shape and entries of the result\<close>




subsection \<open>Dependence on the grid geometry alone\<close>

text \<open>
  Claim C4. Two calls of \<open>my_function\<close> on grids with equal LeftEdge, RightEdge, dds and
  ActiveDimensions return the same result, whatever the two field names and whatever
  else the grid objects carry.
\<close>

theorem my_function_geometry_only:
  fixes g1 :: "('f, 'a) grid_scheme" and g2 :: "('f, 'b) grid_scheme"
  assumes "LeftEdge g1 = LeftEdge g2" and "RightEdge g1 = RightEdge g2" and "dds g1 = dds g2"
    and "ActiveDimensions g1 = ActiveDimensions g2"
  shows "my_function ar g1 name1 = my_function ar g2 name2"
  by (simp add: my_function_def axis_points_def assms)

theorem my_function_geometry_only_witness:
  "my_function exact \<lparr>LeftEdge = [0, 0, 0], RightEdge = [1, 1, 1], dds = [1 / 2, 1 / 2, 1 / 2],
        ActiveDimensions = [2, 2, 2]\<rparr> ''density'' =
   my_function exact \<lparr>LeftEdge = [0, 0, 0], RightEdge = [1, 1, 1], dds = [1 / 2, 1 / 2, 1 / 2],
        ActiveDimensions = [2, 2, 2], \<dots> = True\<rparr> ''temperature''"
  by (rule my_function_geometry_only) simp_all

subsection \<open>Exceptions\<close>

text \<open>
  Claim C9, as stated, fails: \<open>showme\<close> raises ValueError on a numeric image array that is
  not writeable, also when the two library calls would return.
\<close>

theorem showme_raises_on_read_only:
  "showme (\<lambda>a. Inr (length (data a))) (\<lambda>n. Inr (Suc n))
      \<lparr>shape = [1, 1, 3], data = [Num (2::int), Num 3, Num 5], writeable = False\<rparr> =
     Inl ValueError"
  by (simp add: showme_def screen_nans_eq and_then_def)

text \<open>
  Claim C9, amended. Neither function of the material handles an exception.
  \<open>my_function\<close> returns an array for every well-formed grid. \<open>showme\<close> raises ValueError
  on an array that is not writeable; on a writeable array its own statement succeeds,
  \<open>showme\<close> returns when the two library calls it makes return, and it raises exactly
  the exception that \<open>yt.write_bitmap\<close> or \<open>Image\<close> raises, passed on as it is.
\<close>

theorem exceptions_of_the_functions:
  "(well_formed_grid g \<longrightarrow> (\<exists>res. my_function ar g field_name = Inr res)) \<and>
   (\<not> writeable im \<longrightarrow> showme write_bitmap ipy_Image im = Inl ValueError) \<and>
   (writeable im \<longrightarrow>
      (\<exists>im1. screen_nans im = Inr im1 \<and>
         (\<forall>b s. write_bitmap im1 = Inr b \<longrightarrow> ipy_Image b = Inr s \<longrightarrow>
             showme write_bitmap ipy_Image im = Inr (im1, s)) \<and>
         (\<forall>e. showme write_bitmap ipy_Image im = Inl e \<longleftrightarrow>
             write_bitmap im1 = Inl e \<or> (\<exists>b. write_bitmap im1 = Inr b \<and> ipy_Image b = Inl e))))"
proof -
  have "\<exists>res. my_function ar g field_name = Inr res" if "well_formed_grid g"
    using my_function_total[OF that] .
  moreover have "showme write_bitmap ipy_Image im = Inl ValueError" if "\<not> writeable im"
    using that by (simp add: showme_def screen_nans_eq and_then_def)
  moreover have "\<exists>im1. screen_nans im = Inr im1 \<and>
         (\<forall>b s. write_bitmap im1 = Inr b \<longrightarrow> ipy_Image b = Inr s \<longrightarrow>
             showme write_bitmap ipy_Image im = Inr (im1, s)) \<and>
         (\<forall>e. showme write_bitmap ipy_Image im = Inl e \<longleftrightarrow>
             write_bitmap im1 = Inl e \<or> (\<exists>b. write_bitmap im1 = Inr b \<and> ipy_Image b = Inl e))"
    if "writeable im"
    using that by (auto simp add: showme_def screen_nans_eq and_then_def split: sum.splits)
  ultimately show ?thesis by blast
qed

theorem exceptions_of_the_functions_witness:
  "(\<exists>res. my_function exact \<lparr>LeftEdge = [0, 0, 0], RightEdge = [1, 1, 1],
        dds = [1 / 2, 1 / 2, 1 / 2], ActiveDimensions = [2, 2, 2]\<rparr> ''density'' = Inr res) \<and>
   showme (\<lambda>a. Inr (length (data a))) (\<lambda>n. Inr (Suc n))
      \<lparr>shape = [1, 1, 3], data = [Num (2::int), NaN, Num 5], writeable = True\<rparr> =
     Inr (\<lparr>shape = [1, 1, 3], data = [Num 2, Num 0, Num 5], writeable = True\<rparr>, 4)"
  using exceptions_of_the_functions [of
      "\<lparr>LeftEdge = [0, 0, 0], RightEdge = [1, 1, 1], dds = [1 / 2, 1 / 2, 1 / 2],
        ActiveDimensions = [2, 2, 2]\<rparr> :: real grid" exact "''density''"
      "\<lparr>shape = [1, 1, 3], data = [Num (2::int), NaN, Num 5], writeable = True\<rparr>"
      "\<lambda>a. Inr (length (data a))" "\<lambda>n. Inr (Suc n)"]
  by (simp add: well_formed_grid_def screen_nans_eq)


section \<open>Properties of the grid data\<close>

lemma grid_data_loop_map:
  "grid_data_loop ar acc idx =
     acc @ map (\<lambda>(level, le, re, dims). grid_entry ar level le re dims) idx"
  by (induction ar acc idx rule: grid_data_loop.induct) simp_all

lemma grid_data_nth:
  assumes "i < length idx"
  shows "grid_data ar idx ! i =
     grid_entry ar (fst (idx ! i)) (fst (snd (idx ! i))) (fst (snd (snd (idx ! i))))
       (snd (snd (snd (idx ! i))))"
  using assms by (simp add: grid_data_def grid_data_loop_map case_prod_unfold)

lemma grid_data_length: "length (grid_data ar idx) = length idx"
  by (simp add: grid_data_def grid_data_loop_map)

lemma my_function_not_called: "\<not> list_ex (\<lambda>c. called c = ''my_function'') (trace notebook3)"
  by code_simp

text \<open>
  Claim C5. \<open>grid_data\<close> has one dictionary for each item of the index, in order. Each
  dictionary has exactly the keys level, left_edge, right_edge, dimensions and density,
  and the first four hold the four components of the item.
\<close>

theorem grid_data_records:
  "length (grid_data ar idx) = length idx \<and>
   (\<forall>i < length idx.
      dom (grid_data ar idx ! i) =
        {''level'', ''left_edge'', ''right_edge'', ''dimensions'', ''density''} \<and>
      (grid_data ar idx ! i) ''level'' = Some (PyInt (fst (idx ! i))) \<and>
      (grid_data ar idx ! i) ''left_edge'' = Some (PyFloats (fst (snd (idx ! i)))) \<and>
      (grid_data ar idx ! i) ''right_edge'' = Some (PyFloats (fst (snd (snd (idx ! i))))) \<and>
      (grid_data ar idx ! i) ''dimensions'' = Some (PyInts (snd (snd (snd (idx ! i))))))"
  by (auto simp add: grid_data_length grid_data_nth grid_entry_def)

theorem grid_data_records_witness:
  "dom (grid_data exact [(0, [0, 0, 0], [1, 1, 1], [32, 32, 32]),
               (1, [1 / 4, 7 / 32, 1 / 4], [1 / 2, 1 / 2, 1 / 2], [16, 18, 16])] ! 1) =
     {''level'', ''left_edge'', ''right_edge'', ''dimensions'', ''density''} \<and>
   (grid_data exact [(0, [0, 0, 0], [1, 1, 1], [32, 32, 32]),
               (1, [1 / 4, 7 / 32, 1 / 4], [1 / 2, 1 / 2, 1 / 2], [16, 18, 16])] ! 1) ''dimensions'' =
     Some (PyInts [16, 18, 16])"
  using grid_data_records [of exact "[(0, [0, 0, 0], [1, 1, 1], [32, 32, 32]),
               (1, [1 / 4, 7 / 32, 1 / 4], [1 / 2, 1 / 2, 1 / 2], [16, 18, 16])]"]
  by simp

text \<open>
  Claim C2. For every item of the index, the dictionary appended to \<open>grid_data\<close> holds
  the function \<open>my_function\<close> itself under density, and no value of the dictionary is an
  array; the notebook makes no call of \<open>my_function\<close>, so a field array only comes into
  being when the grid-loading routine calls the function.
\<close>

theorem grid_data_density_callable:
  "(\<forall>i < length idx.
      (grid_data ar idx ! i) ''density'' = Some (PyFunction (my_function ar)) \<and>
      (\<forall>k v. (grid_data ar idx ! i) k = Some v \<longrightarrow> \<not> is_array v)) \<and>
   \<not> list_ex (\<lambda>c. called c = ''my_function'') (trace notebook3)"
  using my_function_not_called
  by (auto simp add: grid_data_nth grid_entry_def is_array_def split: if_splits)

theorem grid_data_density_callable_witness:
  "(grid_data exact [(0, [0, 0, 0], [1, 1, 1], [32, 32, 32]),
               (1, [1 / 4, 7 / 32, 1 / 4], [1 / 2, 1 / 2, 1 / 2], [16, 18, 16])] ! 0) ''density'' =
     Some (PyFunction (my_function exact))"
  using grid_data_density_callable [of "[(0, [0, 0, 0], [1, 1, 1], [32, 32, 32]),
               (1, [1 / 4, 7 / 32, 1 / 4], [1 / 2, 1 / 2, 1 / 2], [16, 18, 16])]" exact]
  by simp

section \<open>Properties of the notebooks\<close>

lemma each_after_nth:
  "each_after P earlier xs \<Longrightarrow> i < length xs \<Longrightarrow> P (earlier @ take i xs) (xs ! i)"
proof (induction xs arbitrary: earlier i)
  case Nil
  then show ?case by simp
next
  case (Cons x xs)
  show ?case
  proof (cases i)
    case 0
    then show ?thesis using Cons.prems by simp
  next
    case (Suc j)
    then have "P ((earlier @ [x]) @ take j xs) (xs ! j)"
      using Cons.prems by (intro Cons.IH) simp_all
    then show ?thesis using Suc by simp
  qed
qed

lemma load_precedes_use_check:
  assumes "length (filter is_load (trace nb)) = 1" and "each_after (loaded_first nb) [] (trace nb)"
  shows "load_precedes_use nb"
  unfolding load_precedes_use_def using assms each_after_nth[OF assms(2)] by simp

lemma not_phases_in_order:
  assumes "i < j" and "j < length (trace nb)"
    and "is_configure (trace nb ! j)" and "is_render (trace nb ! i)"
    and "on_dataset nb (trace nb ! i)"
  shows "\<not> phases_in_order nb"
  unfolding phases_in_order_def using assms by blast

text \<open>
  Claim C6, as stated, fails. Positions count the calls of a notebook from 0. In the
  first notebook the helper is plotted (position 8, \<open>tfh.plot()\<close>) before the next helper
  is configured (position 11, \<open>tfh.set_field\<close>); in the third notebook \<open>plot("density")\<close>
  on the slice of the dataset (position 22) precedes \<open>set_log\<close> (position 23), made on
  the plot it returns. In the third notebook the displays of plain arrays (the first at
  position 5) also precede the load (position 21).
\<close>

theorem configuration_after_display:
  "trace notebook1 ! 8 = Call (Attr (Name ''tfh'') ''plot'') [] \<and>
   trace notebook1 ! 11 =
     Call (Attr (Name ''tfh'') ''set_field'') [TupleE [Str ''gas'', Str ''temperature'']] \<and>
   called (trace notebook3 ! 22) = ''plot'' \<and> on_dataset notebook3 (trace notebook3 ! 22) \<and>
   called (trace notebook3 ! 23) = ''set_log'' \<and>
   trace notebook3 ! 5 =
     Call (Attr (Name ''ax4'') ''plot'') [Name ''x'', BinOp (Name ''y'') ''*'' (Name ''atten'')] \<and>
   is_load (trace notebook3 ! 21) \<and>
   \<not> phases_in_order notebook1 \<and> \<not> phases_in_order notebook3"
proof -
  have "\<not> phases_in_order notebook1"
    by (rule not_phases_in_order[of 8 11]) code_simp+
  moreover have "\<not> phases_in_order notebook3"
    by (rule not_phases_in_order[of 22 23]) code_simp+
  moreover have "trace notebook1 ! 8 = Call (Attr (Name ''tfh'') ''plot'') []" by code_simp
  moreover have "trace notebook1 ! 11 =
     Call (Attr (Name ''tfh'') ''set_field'') [TupleE [Str ''gas'', Str ''temperature'']]"
    by code_simp
  moreover have "called (trace notebook3 ! 22) = ''plot''" by code_simp
  moreover have "on_dataset notebook3 (trace notebook3 ! 22)" by code_simp
  moreover have "called (trace notebook3 ! 23) = ''set_log''" by code_simp
  moreover have "trace notebook3 ! 5 =
     Call (Attr (Name ''ax4'') ''plot'') [Name ''x'', BinOp (Name ''y'') ''*'' (Name ''atten'')]"
    by code_simp
  moreover have "is_load (trace notebook3 ! 21)" by code_simp
  ultimately show ?thesis by blast
qed

text \<open>
  Claim C6, amended. In each notebook exactly one call loads a dataset; every
  configuration call is made on an object of that dataset and after the load, and every
  render or display call on an object of the dataset is made after the load.
  Configuration and display are not two phases: calls of the two kinds alternate.
\<close>

theorem notebooks_load_first:
  "load_precedes_use notebook1 \<and> load_precedes_use notebook2 \<and> load_precedes_use notebook3"
proof (intro conjI)
  show "load_precedes_use notebook1"
    by (rule load_precedes_use_check) code_simp+
  show "load_precedes_use notebook2"
    by (rule load_precedes_use_check) code_simp+
  show "load_precedes_use notebook3"
    by (rule load_precedes_use_check) code_simp+
qed

theorem notebooks_load_first_witness:
  "trace notebook1 ! 23 = Call (Attr (Name ''sc'') ''render'') [] \<and>
   list_ex is_load (take 23 (trace notebook1)) \<and>
   trace notebook3 ! 23 =
     Call (Attr (Call (Attr (Subscr (Attr (Name ''ds'') ''r'')
                                [Slice '':'', Number ''0.5'', Slice '':'']) ''plot'')
                      [Str ''density'']) ''set_log'')
          [Str ''density'', Const ''False''] \<and>
   list_ex is_load (take 23 (trace notebook3))"
proof -
  have len: "23 < length (trace notebook1)" "23 < length (trace notebook3)" by code_simp+
  have c: "trace notebook1 ! 23 = Call (Attr (Name ''sc'') ''render'') []" by code_simp
  have c3: "trace notebook3 ! 23 =
     Call (Attr (Call (Attr (Subscr (Attr (Name ''ds'') ''r'')
                                [Slice '':'', Number ''0.5'', Slice '':'']) ''plot'')
                      [Str ''density'']) ''set_log'')
          [Str ''density'', Const ''False'']" by code_simp
  have r: "is_render (trace notebook1 ! 23)" "on_dataset notebook1 (trace notebook1 ! 23)"
    by code_simp+
  have r3: "is_configure (trace notebook3 ! 23)" by code_simp
  from notebooks_load_first len
  have "loaded_first notebook1 (take 23 (trace notebook1)) (trace notebook1 ! 23)"
       "loaded_first notebook3 (take 23 (trace notebook3)) (trace notebook3 ! 23)"
    unfolding load_precedes_use_def by blast+
  then show ?thesis
    using r r3 c c3 unfolding loaded_first_def by blast
qed

text \<open>
  Claim C7, as stated, fails: \<open>showme\<close> calls \<open>yt.write_bitmap\<close>, which is not among the
  six functions the specification names.
\<close>

theorem write_bitmap_called:
  "(''yt'', ''write_bitmap'') \<in> set (library_calls notebook1) \<and> ''write_bitmap'' \<notin> set named_api"
  by code_simp

text \<open>
  Claim C7, amended. The library functions that the material calls by name are, for
  each notebook in the order in which they are first written, the ones listed below. Those of the
  \<open>yt\<close> package are the six named functions and \<open>write_bitmap\<close>; the others belong to
  NumPy, Matplotlib and IPython. Methods of the objects that these functions return,
  and the builtins \<open>sum\<close> and \<open>enumerate\<close>, are not counted.
\<close>

theorem library_calls_of_material:
  "library_calls notebook1 =
     [(''yt'', ''write_bitmap''), (''IPython.core.display'', ''Image''), (''yt'', ''load''),
      (''yt'', ''volume_render''),
      (''yt.visualization.volume_rendering.transfer_function_helper'', ''TransferFunctionHelper''),
      (''numpy'', ''logspace'')] \<and>
   library_calls notebook2 = [(''yt'', ''load_sample''), (''yt'', ''ProjectionPlot'')] \<and>
   library_calls notebook3 =
     [(''matplotlib.pyplot'', ''subplots''), (''matplotlib.pyplot'', ''pcolormesh''),
      (''numpy'', ''linspace''), (''numpy'', ''sqrt''), (''numpy'', ''exp''), (''numpy'', ''sin''),
      (''numpy'', ''array''), (''yt'', ''load_amr_grids'')] \<and>
   set (yt_calls notebook1 @ yt_calls notebook2 @ yt_calls notebook3) =
     set named_api \<union> {''write_bitmap''}"
  by code_simp

text \<open>
  Claim C8. The material loads a dataset from a path, loads one from the sample
  repository by name, defines \<open>my_function\<close> and stores it under density in every
  dictionary of \<open>grid_data\<close>, which it hands to \<open>yt.load_amr_grids\<close>, selects the region
  of all data, builds a transfer function, sets it on a render source and renders, and
  creates a projection plot.
\<close>

theorem call_surface_demonstrated:
  "Call (Attr (Name ''yt'') ''load'') [Str ''Enzo_64/DD0043/data0043''] \<in> set (trace notebook1) \<and>
   Call (Attr (Name ''yt'') ''load_sample'') [Str ''snapshot_033''] \<in> set (trace notebook2) \<and>
   def_my_function \<in> set notebook3 \<and> grid_data_for \<in> set notebook3 \<and>
   written_calls grid_data_for =
     [Call (Attr (Name ''grid_data'') ''append'')
        [DictE [Item (Str ''level'') (Name ''level''), Item (Str ''left_edge'') (Name ''le''),
                Item (Str ''right_edge'') (Name ''re''), Item (Str ''dimensions'') (Name ''dims''),
                Item (Str ''density'') (Name ''my_function'')]]] \<and>
   Call (Attr (Name ''yt'') ''load_amr_grids'')
     [Name ''grid_data'', ListE [Number ''32'', Number ''32'', Number ''32''],
      Kw ''bbox'' (Call (Attr (Name ''np'') ''array'')
        [ListE [ListE [Number ''0.0'', Number ''1.0''], ListE [Number ''0.0'', Number ''1.0''],
                ListE [Number ''0.0'', Number ''1.0'']]])] \<in> set (trace notebook3) \<and>
   Call (Attr (Name ''ds'') ''all_data'') [] \<in> set (trace notebook2) \<and>
   Call (Attr (Name ''tfh'') ''build_transfer_function'') [] \<in> set (trace notebook1) \<and>
   Call (Attr (Name ''source'') ''set_transfer_function'') [Attr (Name ''tfh'') ''tf'']
     \<in> set (trace notebook1) \<and>
   Call (Attr (Name ''sc'') ''render'') [] \<in> set (trace notebook1) \<and>
   Call (Attr (Name ''yt'') ''ProjectionPlot'')
     [Name ''ds'', Str ''z'', TupleE [Str ''gas'', Str ''H_density'']] \<in> set (trace notebook2)"
  by code_simp

text \<open>
  Claim C1, as stated, fails: the definition of \<open>my_function\<close> is a statement of the
  material and is not an invocation of the library.
\<close>

theorem my_function_is_not_plain:
  "def_my_function \<in> set material \<and> \<not> plain def_my_function"
  by code_simp

text \<open>
  Claim C1, amended. Every statement of the material is an import, a binding of
  literals, or an operator-free call, attribute read or subscript, except for the
  statements listed below, which are logic of the material's own: in the first notebook
  the definition of \<open>showme\<close> and its two calls; in the third notebook the eight
  statements of the one- and two-dimensional demonstrations that compute with arrays,
  the definition of \<open>my_function\<close>, and the loop that builds \<open>grid_data\<close>. The second
  notebook has none.
\<close>

theorem statements_of_the_material:
  "filter (\<lambda>s. \<not> plain s) notebook1 = [def_showme, show_image ''im2'', show_image ''im3''] \<and>
   filter (\<lambda>s. \<not> plain s) notebook2 = [] \<and>
   filter (\<lambda>s. \<not> plain s) notebook3 =
     [sines_1d, atten_1d, plot_product_1d, sines_2d, radius_2d, atten_2d, mesh_2d, mesh_coarse,
      def_my_function, grid_data_for]"
  by code_simp


end
